theory Spec2Isabelle
  imports Main "HOL-Library.Word"
begin

section \<open>The health monitor module: data model\<close>

text \<open>
  The model follows \<^verbatim>\<open>sys_health_monitor.c\<close> on an LP64 kernel:
  \<^verbatim>\<open>unsigned long\<close> and \<^verbatim>\<open>u64\<close> are 64-bit words, \<^verbatim>\<open>u32\<close> and
  \<^verbatim>\<open>unsigned int\<close> are 32-bit words, and \<^verbatim>\<open>int\<close> is a 32-bit two's
  complement word (read with \<open>sint\<close>). Arithmetic on words wraps around, as in C.
\<close>

type_synonym u32 = "32 word"
type_synonym u64 = "64 word"
type_synonym ulong = "64 word"
type_synonym c_int = "32 word"

text \<open>\<^verbatim>\<open>struct sys_snapshot\<close> (lines 74--80).\<close>

record sys_snapshot =
  ts_ms :: u64
  free_mem_mib :: u32
  total_mem_mib :: u32
  load_pct :: u32
  io_rate_sps :: u32

text \<open>
  The lines the module writes to the kernel log with \<^verbatim>\<open>printk\<close>, with the values
  substituted for the conversions of each format string.
\<close>

datatype log_line =
    Info_loaded
  | Info_unloaded
  | Info_fallback
  | Alert_memory u32 c_int
  | Alert_cpu u32 c_int
  | Alert_io u32 c_int

text \<open>\<^verbatim>\<open>struct timer_list\<close>, as far as the module uses it.\<close>

record timer_list =
  pending :: bool
  expires :: ulong

text \<open>
  The module's parameters (lines 53--63) and its static state (lines 68--80), with the
  kernel log the module appends to. The spinlock \<^verbatim>\<open>snap_lock\<close> is taken only around
  the two structure copies; what it does and does not exclude is the subject of the last
  section.
\<close>

record module_state =
  mem_threshold :: c_int
  cpu_threshold :: c_int
  io_threshold :: c_int
  poll_timer :: timer_list
  last_io_ticks :: u64
  io_fallback_logged :: bool
  proc_entry :: bool
  snapshot :: sys_snapshot
  klog :: "log_line list"

text \<open>
  What the build fixes: the two preprocessor switches of lines 27--50, and the kernel's
  \<^verbatim>\<open>PAGE_SIZE\<close>, \<^verbatim>\<open>jiffies_to_msecs\<close> and \<^verbatim>\<open>msecs_to_jiffies\<close>, which depend on
  the kernel configuration and are parameters of the model.
\<close>

record kernel_build =
  HAVE_DISK_STATS :: bool
  HAVE_DISK_ITER :: bool
  PAGE_SIZE :: ulong
  jiffies_to_msecs :: "ulong \<Rightarrow> u32"
  msecs_to_jiffies :: "u32 \<Rightarrow> ulong"

text \<open>
  What one run of the timer callback reads from the kernel: \<^verbatim>\<open>si_meminfo\<close>,
  \<^verbatim>\<open>avenrun[1]\<close>, \<^verbatim>\<open>num_online_cpus()\<close>, the per-disk sector counters (read,
  write) of the preferred path, the vm-event counters of the fallback path, and the
  two reads of \<^verbatim>\<open>jiffies\<close> (line 149 and line 169).
\<close>

record kernel_reads =
  totalram :: ulong
  freeram :: ulong
  avenrun_1 :: ulong
  num_online_cpus :: u32
  disk_sectors :: "(ulong \<times> ulong) list"
  PGPGIN :: ulong
  PGPGOUT :: ulong
  jiffies_stamp :: ulong
  jiffies_rearm :: ulong

section \<open>Kernel helpers\<close>

text \<open>\<^verbatim>\<open>FSHIFT\<close> of \<^verbatim>\<open>linux/sched/loadavg.h\<close>: 11 bits of fixed-point precision.\<close>

definition FSHIFT :: nat where
  "FSHIFT = 11"

text \<open>
  \<^verbatim>\<open>div_u64(dividend, divisor)\<close>: a 64-bit dividend by a 32-bit divisor. A zero divisor
  traps in the kernel; here it is the value \<open>None\<close>.
\<close>

definition div_u64 :: "u64 \<Rightarrow> u32 \<Rightarrow> u64 option" where
  "div_u64 dividend divisor =
     (if divisor = 0 then None else Some (dividend div ucast divisor))"

text \<open>
  The conversion of an \<^verbatim>\<open>int\<close> to \<^verbatim>\<open>unsigned int\<close> that C applies before it
  compares the two: the value modulo \<open>2 ^ 32\<close>.
\<close>

definition to_unsigned :: "c_int \<Rightarrow> u32" where
  "to_unsigned x = word_of_int (sint x)"

text \<open>\<^verbatim>\<open>max_t(unsigned int, a, b)\<close>.\<close>

definition max_t :: "u32 \<Rightarrow> u32 \<Rightarrow> u32" where
  "max_t a b = (if a > b then a else b)"

section \<open>Collectors\<close>

text \<open>\<^verbatim>\<open>collect_memory\<close> (lines 83--89): returns \<open>(free_mib, total_mib)\<close>.\<close>

definition collect_memory :: "kernel_reads \<Rightarrow> u32 \<times> u32" where
  "collect_memory k =
     (let total_mib = (ucast (drop_bit 10 (totalram k)) :: u32);
          free_mib = (ucast (drop_bit 10 (freeram k)) :: u32)
      in (free_mib, total_mib))"

text \<open>\<^verbatim>\<open>collect_load_percent\<close> (lines 91--97); the \<^verbatim>\<open>u64\<close> quotient is returned as \<^verbatim>\<open>u32\<close>.\<close>

definition collect_load_percent :: "kernel_reads \<Rightarrow> u32 option" where
  "collect_load_percent k =
     (let avg_fp = avenrun_1 k;
          load_x100 = drop_bit FSHIFT (avg_fp * 100);
          cores = max_t (num_online_cpus k) 1
      in map_option ucast (div_u64 load_x100 cores))"

text \<open>The loop \<^verbatim>\<open>for_each_disk\<close> of the preferred path (lines 104--112).\<close>

fun for_each_disk :: "(ulong \<times> ulong) list \<Rightarrow> u64 \<Rightarrow> u64" where
  "for_each_disk [] io_total = io_total"
| "for_each_disk ((rd, wr) # gds) io_total = for_each_disk gds (io_total + (rd + wr))"

text \<open>
  The first half of \<^verbatim>\<open>collect_disk_ios\<close> (lines 102--128): the cumulative counter
  \<^verbatim>\<open>io_total\<close>, from the block layer or from the vm events, with the one-time
  diagnostic of the fallback path.
\<close>

definition read_io_total :: "kernel_build \<Rightarrow> kernel_reads \<Rightarrow> module_state \<Rightarrow> u64 \<times> module_state" where
  "read_io_total b k st =
     (if HAVE_DISK_STATS b \<and> HAVE_DISK_ITER b
      then (for_each_disk (disk_sectors k) 0, st)
      else
        (let st1 = (if \<not> io_fallback_logged st
                    then st\<lparr>klog := klog st @ [Info_fallback], io_fallback_logged := True\<rparr>
                    else st);
             pages_io = PGPGIN k + PGPGOUT k;
             io_total = pages_io * drop_bit 9 (PAGE_SIZE b)
         in (io_total, st1)))"

text \<open>
  The second half of \<^verbatim>\<open>collect_disk_ios\<close> (lines 130--138): the delta against the
  previous sample, over the 5-second window.
\<close>

definition io_rate_delta :: "u64 \<Rightarrow> module_state \<Rightarrow> (u32 \<times> module_state) option" where
  "io_rate_delta io_total st =
     (if last_io_ticks st = 0
      then Some (0, st\<lparr>last_io_ticks := io_total\<rparr>)
      else
        (let delta = io_total - last_io_ticks st;
             st1 = st\<lparr>last_io_ticks := io_total\<rparr>
         in map_option (\<lambda>q. (ucast q, st1)) (div_u64 delta 5)))"

definition collect_disk_ios :: "kernel_build \<Rightarrow> kernel_reads \<Rightarrow> module_state \<Rightarrow> (u32 \<times> module_state) option" where
  "collect_disk_ios b k st =
     (case read_io_total b k st of (io_total, st1) \<Rightarrow> io_rate_delta io_total st1)"

section \<open>The timer callback and the reader\<close>

text \<open>Lines 151--153 and 176--178: the critical sections, run without interference.\<close>

definition publish :: "sys_snapshot \<Rightarrow> module_state \<Rightarrow> module_state" where
  "publish tmp st = st\<lparr>snapshot := tmp\<rparr>"

definition current_snapshot :: "module_state \<Rightarrow> sys_snapshot" where
  "current_snapshot st = snapshot st"

text \<open>
  Lines 155--167: the three threshold checks. Each compares a \<^verbatim>\<open>u32\<close> field with an
  \<^verbatim>\<open>int\<close> parameter, so C converts the parameter to \<^verbatim>\<open>unsigned int\<close> and compares
  unsigned.
\<close>

definition threshold_alerts :: "sys_snapshot \<Rightarrow> module_state \<Rightarrow> log_line list" where
  "threshold_alerts tmp st =
     (if free_mem_mib tmp < to_unsigned (mem_threshold st)
      then [Alert_memory (free_mem_mib tmp) (mem_threshold st)] else []) @
     (if load_pct tmp > to_unsigned (cpu_threshold st)
      then [Alert_cpu (load_pct tmp) (cpu_threshold st)] else []) @
     (if io_rate_sps tmp > to_unsigned (io_threshold st)
      then [Alert_io (io_rate_sps tmp) (io_threshold st)] else [])"

text \<open>\<^verbatim>\<open>mod_timer\<close>: (re)arms the timer with a new expiry.\<close>

definition mod_timer :: "timer_list \<Rightarrow> ulong \<Rightarrow> timer_list" where
  "mod_timer t e = t\<lparr>pending := True, expires := e\<rparr>"

text \<open>\<^verbatim>\<open>poll_metrics\<close> (lines 142--170).\<close>

definition poll_metrics :: "kernel_build \<Rightarrow> kernel_reads \<Rightarrow> module_state \<Rightarrow> module_state option" where
  "poll_metrics b k st =
     (let (free_mib, total_mib) = collect_memory k
      in (case collect_load_percent k of
            None \<Rightarrow> None
          | Some load \<Rightarrow>
              (case collect_disk_ios b k st of
                 None \<Rightarrow> None
               | Some (rate, st1) \<Rightarrow>
                   (let tmp = \<lparr>ts_ms = ucast (jiffies_to_msecs b (jiffies_stamp k)),
                               free_mem_mib = free_mib, total_mem_mib = total_mib,
                               load_pct = load, io_rate_sps = rate\<rparr>;
                        st2 = publish tmp st1;
                        st3 = st2\<lparr>klog := klog st2 @ threshold_alerts tmp st2\<rparr>
                    in Some (st3\<lparr>poll_timer :=
                         mod_timer (poll_timer st3)
                           (jiffies_rearm k + msecs_to_jiffies b 5000)\<rparr>)))))"

text \<open>
  \<^verbatim>\<open>proc_show\<close> (lines 173--189): the return value and the five lines written to the
  \<^verbatim>\<open>seq_file\<close>, each as its label and the number printed.
\<close>

definition proc_show :: "module_state \<Rightarrow> int \<times> (string \<times> nat) list" where
  "proc_show st =
     (let s = current_snapshot st
      in (0, [(''Timestamp_ms'', unat (ts_ms s)),
              (''Memory_free'', unat (free_mem_mib s)),
              (''Memory_total'', unat (total_mem_mib s)),
              (''CPU_load_1m'', unat (load_pct s)),
              (''Disk_io_rate'', unat (io_rate_sps s))]))"

text \<open>
  The module at load time: the parameters as given on the command line (defaults 100,
  80, 5000), every other static object zero-initialised, as C does for objects of static
  storage duration.
\<close>

definition module_statics :: "c_int \<Rightarrow> c_int \<Rightarrow> c_int \<Rightarrow> module_state" where
  "module_statics mem cpu io =
     \<lparr>mem_threshold = mem, cpu_threshold = cpu, io_threshold = io,
      poll_timer = \<lparr>pending = False, expires = 0\<rparr>,
      last_io_ticks = 0, io_fallback_logged = False, proc_entry = False,
      snapshot = \<lparr>ts_ms = 0, free_mem_mib = 0, total_mem_mib = 0, load_pct = 0, io_rate_sps = 0\<rparr>,
      klog = []\<rparr>"

text \<open>
  \<^verbatim>\<open>sys_health_init\<close> (lines 204--219): \<open>proc_ok\<close> says whether \<^verbatim>\<open>proc_create\<close>
  succeeded, \<open>now\<close> is \<^verbatim>\<open>jiffies\<close>. Returns 0, or \<^verbatim>\<open>-ENOMEM\<close> (\<open>-12\<close>).
\<close>

definition sys_health_init :: "kernel_build \<Rightarrow> bool \<Rightarrow> ulong \<Rightarrow> module_state \<Rightarrow> int \<times> module_state" where
  "sys_health_init b proc_ok now st =
     (let st1 = st\<lparr>klog := klog st @ [Info_loaded], proc_entry := proc_ok\<rparr>
      in if \<not> proc_entry st1 then (- 12, st1)
         else (0, st1\<lparr>poll_timer := mod_timer (poll_timer st1) (now + msecs_to_jiffies b 5000)\<rparr>))"

text \<open>A run of the timer callback over successive ticks, stopping at a trap.\<close>

fun run_ticks :: "kernel_build \<Rightarrow> kernel_reads list \<Rightarrow> module_state \<Rightarrow> module_state option" where
  "run_ticks b [] st = Some st"
| "run_ticks b (k # ks) st =
     (case poll_metrics b k st of None \<Rightarrow> None | Some st1 \<Rightarrow> run_ticks b ks st1)"

text \<open>\<^verbatim>\<open>sys_health_exit\<close> (lines 221--227).\<close>

definition sys_health_exit :: "module_state \<Rightarrow> module_state" where
  "sys_health_exit st =
     st\<lparr>poll_timer := (poll_timer st)\<lparr>pending := False\<rparr>, klog := klog st @ [Info_unloaded]\<rparr>"

section \<open>Derived notions used in the statements\<close>

text \<open>The all-zero snapshot of a freshly loaded module.\<close>

definition zero_snapshot :: sys_snapshot where
  "zero_snapshot =
     \<lparr>ts_ms = 0, free_mem_mib = 0, total_mem_mib = 0, load_pct = 0, io_rate_sps = 0\<rparr>"

text \<open>
  The value of \<^verbatim>\<open>tmp\<close> that \<^verbatim>\<open>poll_metrics\<close> has assembled when it reaches line 151,
  written out in terms of what the tick read.
\<close>

definition tick_snapshot :: "kernel_build \<Rightarrow> kernel_reads \<Rightarrow> module_state \<Rightarrow> sys_snapshot" where
  "tick_snapshot b k st =
     \<lparr>ts_ms = ucast (jiffies_to_msecs b (jiffies_stamp k)),
      free_mem_mib = fst (collect_memory k),
      total_mem_mib = snd (collect_memory k),
      load_pct = ucast (drop_bit FSHIFT (avenrun_1 k * 100) div
                   ucast (max_t (num_online_cpus k) 1)),
      io_rate_sps = (if last_io_ticks st = 0 then 0
                     else ucast ((fst (read_io_total b k st) - last_io_ticks st) div 5))\<rparr>"

text \<open>
  The rate as the specification words it (section 4.2): the difference of the counters
  in unsigned arithmetic that saturates at zero, over the interval. Subtraction on
  \<open>nat\<close> stops at zero. It is compared below with what \<open>io_rate_delta\<close> computes.
\<close>

definition spec_saturating_rate :: "nat \<Rightarrow> nat \<Rightarrow> nat \<Rightarrow> nat" where
  "spec_saturating_rate counter previous interval_seconds =
     (counter - previous) div interval_seconds"

text \<open>Which kind of alert a log line is.\<close>

fun is_memory_alert :: "log_line \<Rightarrow> bool" where
  "is_memory_alert (Alert_memory f t) = True"
| "is_memory_alert l = False"

fun is_cpu_alert :: "log_line \<Rightarrow> bool" where
  "is_cpu_alert (Alert_cpu f t) = True"
| "is_cpu_alert l = False"

fun is_io_alert :: "log_line \<Rightarrow> bool" where
  "is_io_alert (Alert_io f t) = True"
| "is_io_alert l = False"

subsection \<open>Concrete inputs\<close>

text \<open>
  A kernel with \<^verbatim>\<open>HZ = 250\<close> and 4 KiB pages, built without the block-layer
  iterator, so that the fallback path is compiled in.
\<close>

definition example_build :: kernel_build where
  "example_build =
     \<lparr>HAVE_DISK_STATS = False, HAVE_DISK_ITER = False, PAGE_SIZE = 4096,
      jiffies_to_msecs = (\<lambda>j. ucast (4 * j)),
      msecs_to_jiffies = (\<lambda>m. (ucast m + 3) div 4)\<rparr>"

text \<open>
  A machine with \<open>2097152\<close> pages of memory, a quarter of them free, a load average
  of 1.00 (\<open>2048\<close> in fixed point) on four cores; the callback starts at jiffy 1250 and
  re-arms the timer one jiffy later.
\<close>

definition example_reads :: kernel_reads where
  "example_reads =
     \<lparr>totalram = 2097152, freeram = 524288, avenrun_1 = 2048, num_online_cpus = 4,
      disk_sectors = [], PGPGIN = 1000, PGPGOUT = 500,
      jiffies_stamp = 1250, jiffies_rearm = 1251\<rparr>"

definition example_state :: module_state where
  "example_state = module_statics 100 80 5000"

definition example_snapshot :: sys_snapshot where
  "example_snapshot =
     \<lparr>ts_ms = 5000, free_mem_mib = 2048, total_mem_mib = 8192, load_pct = 95,
      io_rate_sps = 9000\<rparr>"

section \<open>The reader interrupted by the timer\<close>

text \<open>
  \<^verbatim>\<open>poll_metrics\<close> is a timer callback: it runs in softirq context, on the return
  from an interrupt. \<^verbatim>\<open>proc_show\<close> runs in process context and takes
  \<^verbatim>\<open>snap_lock\<close> with plain \<^verbatim>\<open>spin_lock\<close> (line 176), not \<^verbatim>\<open>spin_lock_bh\<close> or
  \<^verbatim>\<open>spin_lock_irqsave\<close>, so softirqs stay enabled inside its critical section. On a
  uniprocessor build \<^verbatim>\<open>spin_lock\<close> is \<^verbatim>\<open>preempt_disable\<close> and takes no lock: the
  callback can run, from its first line to its last, between any two instructions of the
  structure copy of line 177. A structure assignment is not atomic; it is modelled as
  one load per field, in the order the schedule gives.
\<close>

datatype field = F_ts_ms | F_free_mem_mib | F_total_mem_mib | F_load_pct | F_io_rate_sps

definition all_fields :: "field list" where
  "all_fields = [F_ts_ms, F_free_mem_mib, F_total_mem_mib, F_load_pct, F_io_rate_sps]"

text \<open>Copying one field of \<open>src\<close> into \<open>dst\<close>.\<close>

fun copy_field :: "field \<Rightarrow> sys_snapshot \<Rightarrow> sys_snapshot \<Rightarrow> sys_snapshot" where
  "copy_field F_ts_ms src dst = dst\<lparr>ts_ms := ts_ms src\<rparr>"
| "copy_field F_free_mem_mib src dst = dst\<lparr>free_mem_mib := free_mem_mib src\<rparr>"
| "copy_field F_total_mem_mib src dst = dst\<lparr>total_mem_mib := total_mem_mib src\<rparr>"
| "copy_field F_load_pct src dst = dst\<lparr>load_pct := load_pct src\<rparr>"
| "copy_field F_io_rate_sps src dst = dst\<lparr>io_rate_sps := io_rate_sps src\<rparr>"

fun same_field :: "field \<Rightarrow> sys_snapshot \<Rightarrow> sys_snapshot \<Rightarrow> bool" where
  "same_field F_ts_ms a b = (ts_ms a = ts_ms b)"
| "same_field F_free_mem_mib a b = (free_mem_mib a = free_mem_mib b)"
| "same_field F_total_mem_mib a b = (total_mem_mib a = total_mem_mib b)"
| "same_field F_load_pct a b = (load_pct a = load_pct b)"
| "same_field F_io_rate_sps a b = (io_rate_sps a = io_rate_sps b)"

text \<open>
  What happens on the reader's processor while \<^verbatim>\<open>proc_show\<close> is at line 177: it loads
  one field of \<^verbatim>\<open>snapshot\<close> into its local \<^verbatim>\<open>s\<close>, or the timer fires and
  \<^verbatim>\<open>poll_metrics\<close> runs to completion with what it reads from the kernel.
\<close>

datatype event = Load field | Timer_softirq kernel_reads



text \<open>
  Lines 175--178 of \<^verbatim>\<open>proc_show\<close> under a schedule: the module state, and the local
  \<^verbatim>\<open>s\<close>, which starts with whatever the stack holds. The result is the state and the
  \<^verbatim>\<open>s\<close> that lines 180--187 go on to print.
\<close>

fun proc_show_copy :: "kernel_build \<Rightarrow> event list \<Rightarrow> module_state \<Rightarrow> sys_snapshot
    \<Rightarrow> (module_state \<times> sys_snapshot) option" where
  "proc_show_copy b [] st s = Some (st, s)"
| "proc_show_copy b (Load f # es) st s =
     proc_show_copy b es st (copy_field f (snapshot st) s)"
| "proc_show_copy b (Timer_softirq k # es) st s =
     (case poll_metrics b k st of
        None \<Rightarrow> None
      | Some st1 \<Rightarrow> proc_show_copy b es st1 s)"

text \<open>
  Lines 180--187 of \<^verbatim>\<open>proc_show\<close> on the local \<^verbatim>\<open>s\<close>: the five lines printed.
\<close>

definition seq_lines :: "sys_snapshot \<Rightarrow> (string \<times> nat) list" where
  "seq_lines s =
     [(''Timestamp_ms'', unat (ts_ms s)),
      (''Memory_free'', unat (free_mem_mib s)),
      (''Memory_total'', unat (total_mem_mib s)),
      (''CPU_load_1m'', unat (load_pct s)),
      (''Disk_io_rate'', unat (io_rate_sps s))]"

text \<open>
  \<^verbatim>\<open>proc_show\<close> under a schedule: the state it leaves, its return value and the
  lines it prints.
\<close>

definition proc_show_preempted :: "kernel_build \<Rightarrow> event list \<Rightarrow> module_state \<Rightarrow> sys_snapshot
    \<Rightarrow> (module_state \<times> int \<times> (string \<times> nat) list) option" where
  "proc_show_preempted b es st s0 =
     map_option (\<lambda>(st1, s). (st1, 0, seq_lines s)) (proc_show_copy b es st s0)"


text \<open>The example module after \<^verbatim>\<open>sys_health_init\<close> at jiffy 0: the timer is due at jiffy 1250.\<close>

definition example_armed :: module_state where
  "example_armed = snd (sys_health_init example_build True 0 example_state)"

section \<open>The collectors never trap\<close>

lemma to_unsigned_id: "to_unsigned x = x"
  by (simp add: to_unsigned_def)

lemma max_t_one_nonzero: "max_t n 1 \<noteq> 0"
  by (auto simp: max_t_def)

lemma max_t_one_if: "max_t n 1 = (if n = 0 then 1 else n)"
  by (auto simp: max_t_def not_less word_le_less_eq word_less_1)

lemma div_u64_five: "div_u64 d 5 = Some (d div 5)"
  by (simp add: div_u64_def)

lemma collect_load_percent_Some:
  "collect_load_percent k =
     Some (ucast (drop_bit FSHIFT (avenrun_1 k * 100) div ucast (max_t (num_online_cpus k) 1)))"
  by (simp add: collect_load_percent_def div_u64_def max_t_one_nonzero Let_def)

lemma io_rate_delta_Some:
  "io_rate_delta t st =
     Some (if last_io_ticks st = 0 then 0 else ucast ((t - last_io_ticks st) div 5),
           st\<lparr>last_io_ticks := t\<rparr>)"
  by (simp add: io_rate_delta_def div_u64_five Let_def)

lemma collect_disk_ios_Some:
  "collect_disk_ios b k st =
     Some (if last_io_ticks st = 0 then 0
           else ucast ((fst (read_io_total b k st) - last_io_ticks st) div 5),
           (snd (read_io_total b k st))\<lparr>last_io_ticks := fst (read_io_total b k st)\<rparr>)"
proof (cases "read_io_total b k st")
  case (Pair t st1)
  have "last_io_ticks (snd (read_io_total b k st)) = last_io_ticks st"
    by (simp add: read_io_total_def Let_def)
  with Pair have "last_io_ticks st1 = last_io_ticks st"
    by simp
  with Pair show ?thesis
    by (simp add: collect_disk_ios_def io_rate_delta_Some)
qed

text \<open>Every run of the callback returns, and this is the state it leaves.\<close>

lemma poll_metrics_Some:
  "poll_metrics b k st =
     Some ((snd (read_io_total b k st))
        \<lparr>last_io_ticks := fst (read_io_total b k st),
         snapshot := tick_snapshot b k st,
         klog := klog (snd (read_io_total b k st)) @
                 threshold_alerts (tick_snapshot b k st) st,
         poll_timer := \<lparr>pending = True,
                        expires = jiffies_rearm k + msecs_to_jiffies b 5000\<rparr>\<rparr>)"
  by (simp add: poll_metrics_def collect_load_percent_Some collect_disk_ios_Some Let_def
      tick_snapshot_def publish_def mod_timer_def threshold_alerts_def read_io_total_def
      split: prod.split)

section \<open>Word arithmetic used below\<close>

lemma sint_uint_cases:
  fixes w :: "32 word"
  shows "sint w = uint w \<or> sint w = uint w - 2 ^ 32"
proof -
  have "take_bit 32 (uint w) = uint w"
    using uint_lt2p [of w] by (simp add: take_bit_int_eq_self_iff)
  then have "sint w = uint w - 2 ^ 32 * of_bool (bit (uint w) 31)"
    by (simp add: sint_uint signed_take_bit_eq_take_bit_minus)
  then show ?thesis
    by (cases "bit (uint w) 31") simp_all
qed

lemma nonneg_threshold_unsigned:
  fixes t :: c_int
  assumes "0 \<le> sint t"
  shows "uint (to_unsigned t) = sint t"
  using assms sint_uint_cases [of t] uint_lt2p [of t]
  by (auto simp: to_unsigned_id)

lemma neg_threshold_range:
  fixes t :: c_int
  assumes "sint t < 0"
  shows "uint (to_unsigned t) = 2 ^ 32 + sint t" and "2 ^ 31 \<le> uint (to_unsigned t)"
proof -
  show u: "uint (to_unsigned t) = 2 ^ 32 + sint t"
    using assms sint_uint_cases [of t] uint_ge_0 [of t]
    by (auto simp: to_unsigned_id)
  from sint_ge [of t] have "- (2 ^ 31) \<le> sint t"
    by simp
  with u show "2 ^ 31 \<le> uint (to_unsigned t)"
    by simp
qed

lemma less_threshold_nonneg:
  fixes x t :: "32 word"
  assumes "0 \<le> sint t"
  shows "x < to_unsigned t \<longleftrightarrow> uint x < sint t"
  using nonneg_threshold_unsigned [OF assms] by (simp add: word_less_def)

lemma greater_threshold_nonneg:
  fixes x t :: "32 word"
  assumes "0 \<le> sint t"
  shows "to_unsigned t < x \<longleftrightarrow> sint t < uint x"
  using nonneg_threshold_unsigned [OF assms] by (simp add: word_less_def)

lemma shift_cast_mono:
  fixes a b :: ulong
  assumes "a \<le> b" and "b < 2 ^ 42"
  shows "(ucast (drop_bit 10 a) :: u32) \<le> ucast (drop_bit 10 b)"
proof -
  from assms(2) have b: "unat b < 2 ^ 42"
    by (simp add: word_less_nat_alt)
  from assms(1) have ab: "unat a \<le> unat b"
    by (simp add: word_le_nat_alt)
  from b have "unat b div 2 ^ 10 < 2 ^ 32"
    by simp
  moreover from ab have "unat a div 2 ^ 10 \<le> unat b div 2 ^ 10"
    by (rule div_le_mono)
  moreover have "unat (drop_bit 10 a) = unat a div 2 ^ 10"
    and "unat (drop_bit 10 b) = unat b div 2 ^ 10"
    by (simp_all add: drop_bit_eq_div unat_div)
  ultimately have "take_bit 32 (unat (drop_bit 10 a)) \<le> take_bit 32 (unat (drop_bit 10 b))"
    by (simp only: take_bit_nat_eq_self)
  then show ?thesis
    by (simp add: word_le_nat_alt unsigned_ucast_eq del: take_bit_of_nat)
qed

lemma sub_wrap:
  fixes c p :: u64
  shows "unat (c - p) = (if p \<le> c then unat c - unat p else 2 ^ 64 + unat c - unat p)"
  using unat_sub_if_size [of c p] by (auto simp: word_size word_le_nat_alt)

lemma trunc32: "unat (ucast (d :: u64) :: u32) = unat d mod 2 ^ 32"
  by (simp add: unsigned_ucast_eq take_bit_eq_mod)

lemma div5: "unat ((d :: u64) div 5) = unat d div 5"
  by (simp add: unat_div)

section \<open>Load percentage\<close>

text \<open>
  Claim C8. The load-percentage computation never divides by zero: whatever number of
  online cores is reported, zero included, the divisor is the larger of that number and
  one, which is at least one, so \<open>div_u64\<close> never traps and \<open>collect_load_percent\<close>
  always returns the quotient. With zero cores reported it divides by one.
\<close>

theorem load_divisor_never_zero:
  "collect_load_percent k =
     Some (ucast (drop_bit FSHIFT (avenrun_1 k * 100) div ucast (max_t (num_online_cpus k) 1)))
   \<and> 1 \<le> max_t (num_online_cpus k) 1
   \<and> max_t (num_online_cpus k) 1 = (if num_online_cpus k = 0 then 1 else num_online_cpus k)
   \<and> div_u64 (drop_bit FSHIFT (avenrun_1 k * 100)) (max_t (num_online_cpus k) 1) \<noteq> None
   \<and> collect_load_percent (k\<lparr>num_online_cpus := 0\<rparr>) =
       Some (ucast (drop_bit FSHIFT (avenrun_1 k * 100)))"
proof -
  have "1 \<le> max_t (num_online_cpus k) 1"
    by (auto simp: max_t_def)
  moreover have "collect_load_percent (k\<lparr>num_online_cpus := 0\<rparr>) =
       Some (ucast (drop_bit FSHIFT (avenrun_1 k * 100)))"
    by (simp add: collect_load_percent_Some max_t_one_if)
  moreover have "div_u64 (drop_bit FSHIFT (avenrun_1 k * 100)) (max_t (num_online_cpus k) 1) \<noteq> None"
    by (simp add: div_u64_def max_t_one_nonzero)
  ultimately show ?thesis
    by (simp add: collect_load_percent_Some max_t_one_if)
qed

section \<open>The snapshot store, sequentially\<close>

text \<open>
  Claim C6. Reading the snapshot store before any publish returns the all-zero snapshot
  and does not fail: this holds for the freshly loaded module and after
  \<open>sys_health_init\<close>, and \<open>proc_show\<close> prints five zeros and returns 0, as it does in
  every state. After a publish of \<open>S\<close>, a read returns \<open>S\<close> and \<open>proc_show\<close> prints its
  fields; after a run of \<open>poll_metrics\<close> a read returns the snapshot that run assembled.
\<close>

theorem snapshot_store_read:
  "current_snapshot (module_statics m c i) = zero_snapshot
   \<and> current_snapshot (snd (sys_health_init b ok now (module_statics m c i))) = zero_snapshot
   \<and> proc_show (module_statics m c i) =
        (0, [(''Timestamp_ms'', 0), (''Memory_free'', 0), (''Memory_total'', 0),
             (''CPU_load_1m'', 0), (''Disk_io_rate'', 0)])
   \<and> fst (proc_show st) = 0
   \<and> current_snapshot (publish S st) = S
   \<and> proc_show (publish S st) =
        (0, [(''Timestamp_ms'', unat (ts_ms S)), (''Memory_free'', unat (free_mem_mib S)),
             (''Memory_total'', unat (total_mem_mib S)), (''CPU_load_1m'', unat (load_pct S)),
             (''Disk_io_rate'', unat (io_rate_sps S))])
   \<and> map_option current_snapshot (poll_metrics b k st) = Some (tick_snapshot b k st)"
  by (simp add: current_snapshot_def module_statics_def zero_snapshot_def sys_health_init_def
      proc_show_def publish_def poll_metrics_Some Let_def)

section \<open>Re-arming the timer\<close>

text \<open>
  Claim C5, as the code has it. At the end of every sampling cycle the next tick is armed
  at the value of \<open>jiffies\<close> read at that moment (line 169) plus
  \<open>msecs_to_jiffies(5000)\<close>, that is, five seconds after the cycle completes; the
  expiry the timer fired at is not used.
\<close>

theorem next_tick_armed_from_now:
  "map_option poll_timer (poll_metrics b k st) =
     Some \<lparr>pending = True, expires = jiffies_rearm k + msecs_to_jiffies b 5000\<rparr>"
  by (simp add: poll_metrics_Some)

text \<open>
  Claim C5, as stated, fails. The timer armed at load time is due at jiffy 1250; the
  callback reaches line 169 at jiffy 1251, and arms the next tick at jiffy 2501, not at
  \<open>1250 + 1250\<close>.
\<close>

theorem next_tick_last_fire_counterexample:
  "poll_timer example_armed = \<lparr>pending = True, expires = 1250\<rparr>
   \<and> msecs_to_jiffies example_build 5000 = 1250
   \<and> map_option (expires \<circ> poll_timer) (poll_metrics example_build example_reads example_armed)
       = Some 2501
   \<and> map_option (expires \<circ> poll_timer) (poll_metrics example_build example_reads example_armed)
       \<noteq> Some (expires (poll_timer example_armed) + msecs_to_jiffies example_build 5000)"
  by (simp add: poll_metrics_Some example_armed_def sys_health_init_def example_build_def
      example_reads_def example_state_def module_statics_def mod_timer_def Let_def)

section \<open>The rate estimator\<close>

text \<open>
  Claim C2, as the code has it. In a state with no baseline (\<open>last_io_ticks = 0\<close>) the
  delta step returns rate 0 and records the counter \<open>c\<close>. If \<open>c\<close> is not zero, a second
  call with counter \<open>c + k\<close> (in 64 bits) returns \<open>k div 5\<close> cut to 32 bits, which
  reads as \<open>(k div 5) mod 2 ^ 32\<close> and so is \<open>k div 5\<close>, rounded towards zero, whenever
  that fits in 32 bits. If \<open>c\<close> is zero, the estimator still has no baseline, and the
  second call returns 0 and records its counter.
\<close>

theorem rate_first_and_second_call:
  assumes "last_io_ticks st = 0"
  shows "io_rate_delta c st = Some (0, st\<lparr>last_io_ticks := c\<rparr>)
    \<and> io_rate_delta (c + k) (st\<lparr>last_io_ticks := c\<rparr>) =
        Some (if c = 0 then 0 else ucast (k div 5), st\<lparr>last_io_ticks := c + k\<rparr>)
    \<and> unat (ucast (k div 5) :: u32) = (unat k div 5) mod 2 ^ 32"
  using assms by (simp add: io_rate_delta_Some trunc32 div5)

theorem rate_first_and_second_call_witness:
  "last_io_ticks example_state = 0 \<and> (7 :: u64) \<noteq> 0
   \<and> io_rate_delta 7 example_state = Some (0, example_state\<lparr>last_io_ticks := 7\<rparr>)
   \<and> io_rate_delta (7 + 23) (example_state\<lparr>last_io_ticks := 7\<rparr>) =
        Some (4, example_state\<lparr>last_io_ticks := 30\<rparr>)"
proof -
  have h: "last_io_ticks example_state = 0"
    by (simp add: example_state_def module_statics_def)
  from rate_first_and_second_call [OF h, of 7 23] h show ?thesis
    by simp
qed

text \<open>
  Claim C2, as stated, fails twice. With \<open>c = 0\<close> and \<open>k = 5\<close> the second call returns
  0, not \<open>5 div 5\<close>: a recorded counter of zero reads as no baseline. With \<open>c = 1\<close> and
  \<open>k = 5 * 2 ^ 32\<close> the quotient \<open>2 ^ 32\<close> does not fit the \<^verbatim>\<open>u32\<close> return value,
  and the call returns 0.
\<close>

theorem rate_second_call_counterexample:
  "io_rate_delta 0 example_state = Some (0, example_state\<lparr>last_io_ticks := 0\<rparr>)
   \<and> map_option (unat \<circ> fst) (io_rate_delta (0 + 5) (example_state\<lparr>last_io_ticks := 0\<rparr>))
       \<noteq> Some (5 div 5)
   \<and> io_rate_delta 1 example_state = Some (0, example_state\<lparr>last_io_ticks := 1\<rparr>)
   \<and> map_option (unat \<circ> fst)
         (io_rate_delta (1 + 21474836480) (example_state\<lparr>last_io_ticks := 1\<rparr>))
       \<noteq> Some (21474836480 div 5)"
  by (simp add: io_rate_delta_Some example_state_def module_statics_def)

text \<open>
  Claim C3, as the code has it. Once a baseline is recorded (\<open>last_io_ticks\<close> is not
  zero), the delta step returns \<open>(counter - previous) div 5\<close> cut to 32 bits, where the
  subtraction is that of 64-bit unsigned words: it wraps around, so a counter below the
  previous one gives \<open>2 ^ 64 + counter - previous\<close>, not zero. Afterwards the previous
  value is the counter.
\<close>

theorem rate_after_baseline_wraps:
  assumes "last_io_ticks st \<noteq> 0"
  shows "io_rate_delta c st =
           Some (ucast ((c - last_io_ticks st) div 5), st\<lparr>last_io_ticks := c\<rparr>)
    \<and> unat (c - last_io_ticks st) =
        (if last_io_ticks st \<le> c then unat c - unat (last_io_ticks st)
         else 2 ^ 64 + unat c - unat (last_io_ticks st))
    \<and> unat (ucast ((c - last_io_ticks st) div 5) :: u32) =
        (unat (c - last_io_ticks st) div 5) mod 2 ^ 32"
  using assms sub_wrap [of c "last_io_ticks st"]
  by (simp add: io_rate_delta_Some trunc32 div5)

theorem rate_after_baseline_wraps_witness:
  "last_io_ticks (example_state\<lparr>last_io_ticks := 10\<rparr>) \<noteq> 0
   \<and> io_rate_delta 35 (example_state\<lparr>last_io_ticks := 10\<rparr>) =
       Some (5, example_state\<lparr>last_io_ticks := 35\<rparr>)"
proof -
  have h: "last_io_ticks (example_state\<lparr>last_io_ticks := 10\<rparr>) \<noteq> 0"
    by simp
  from rate_after_baseline_wraps [OF h, of 35] h show ?thesis
    by simp
qed

text \<open>
  Claim C3, as stated, fails: with previous value 10 and counter 5 the saturating rate
  is 0, and the code returns \<open>858993458\<close>, the low 32 bits of \<open>(2 ^ 64 - 5) div 5\<close>.
\<close>

theorem rate_not_saturating_counterexample:
  "map_option (unat \<circ> fst) (io_rate_delta 5 (example_state\<lparr>last_io_ticks := 10\<rparr>))
     = Some 858993458
   \<and> spec_saturating_rate 5 10 5 = 0
   \<and> map_option (unat \<circ> fst) (io_rate_delta 5 (example_state\<lparr>last_io_ticks := 10\<rparr>))
     \<noteq> Some (spec_saturating_rate 5 10 5)"
  by (simp add: io_rate_delta_Some spec_saturating_rate_def)

section \<open>Threshold evaluation\<close>

lemma list_ex_threshold_alerts:
  "list_ex is_memory_alert (threshold_alerts tmp st) \<longleftrightarrow>
     free_mem_mib tmp < to_unsigned (mem_threshold st)"
  "list_ex is_cpu_alert (threshold_alerts tmp st) \<longleftrightarrow>
     to_unsigned (cpu_threshold st) < load_pct tmp"
  "list_ex is_io_alert (threshold_alerts tmp st) \<longleftrightarrow>
     to_unsigned (io_threshold st) < io_rate_sps tmp"
  by (simp_all add: threshold_alerts_def)

text \<open>
  Where the code agrees with the specification's threshold policy: each check alone,
  under the hypothesis that its own limit is not negative, whatever the other two limits
  are. The checks are independent and the comparisons strict.
\<close>

lemma memory_alert_iff_nonneg_floor:
  assumes "0 \<le> sint (mem_threshold st)"
  shows "list_ex is_memory_alert (threshold_alerts tmp st) \<longleftrightarrow>
     uint (free_mem_mib tmp) < sint (mem_threshold st)"
  by (simp add: list_ex_threshold_alerts less_threshold_nonneg [OF assms])

lemma cpu_alert_iff_nonneg_ceiling:
  assumes "0 \<le> sint (cpu_threshold st)"
  shows "list_ex is_cpu_alert (threshold_alerts tmp st) \<longleftrightarrow>
     sint (cpu_threshold st) < uint (load_pct tmp)"
  by (simp add: list_ex_threshold_alerts greater_threshold_nonneg [OF assms])

lemma io_alert_iff_nonneg_ceiling:
  assumes "0 \<le> sint (io_threshold st)"
  shows "list_ex is_io_alert (threshold_alerts tmp st) \<longleftrightarrow>
     sint (io_threshold st) < uint (io_rate_sps tmp)"
  by (simp add: list_ex_threshold_alerts greater_threshold_nonneg [OF assms])

text \<open>
  The scenarios of the specification: with limits 100, 80 and 5000, the fields 90, 85
  and 6000 give exactly three alerts, the fields 200, 50 and 100 give none, and the
  fields 100, 80 and 5000, each equal to its limit, give none.
\<close>

lemma threshold_scenarios:
  "threshold_alerts (tmp\<lparr>free_mem_mib := 90, load_pct := 85, io_rate_sps := 6000\<rparr>)
      (st\<lparr>mem_threshold := 100, cpu_threshold := 80, io_threshold := 5000\<rparr>) =
    [Alert_memory 90 100, Alert_cpu 85 80, Alert_io 6000 5000]"
  "threshold_alerts (tmp\<lparr>free_mem_mib := 200, load_pct := 50, io_rate_sps := 100\<rparr>)
      (st\<lparr>mem_threshold := 100, cpu_threshold := 80, io_threshold := 5000\<rparr>) = []"
  "threshold_alerts (tmp\<lparr>free_mem_mib := 100, load_pct := 80, io_rate_sps := 5000\<rparr>)
      (st\<lparr>mem_threshold := 100, cpu_threshold := 80, io_threshold := 5000\<rparr>) = []"
  by (simp_all add: threshold_alerts_def to_unsigned_id)

text \<open>
  Claim C4. Threshold evaluation is to emit the memory alert iff the free memory is below
  the memory floor. The code breaks this for a negative floor: the parameter is an
  \<^verbatim>\<open>int\<close>, printed with \<^verbatim>\<open>%d\<close>, but compared after conversion to
  \<^verbatim>\<open>unsigned int\<close>. With \<open>mem_threshold = -1\<close> and 50 MiB free the evaluation emits the
  memory alert "free memory 50 MiB below -1", although 50 is not below \<open>-1\<close>; a whole
  tick with 512 MiB free logs the alert as well.
\<close>

theorem memory_alert_above_negative_floor:
  "threshold_alerts
      \<lparr>ts_ms = 5000, free_mem_mib = 50, total_mem_mib = 2048, load_pct = 80,
         io_rate_sps = 100\<rparr>
      (module_statics (- 1) 80 5000) = [Alert_memory 50 (- 1)]
   \<and> sint (mem_threshold (module_statics (- 1) 80 5000)) = - 1
   \<and> \<not> (uint (50 :: u32) < sint (mem_threshold (module_statics (- 1) 80 5000)))
   \<and> map_option klog (poll_metrics example_build example_reads (module_statics (- 1) 80 5000))
       = Some [Info_fallback, Alert_memory 512 (- 1)]"
  by (simp add: threshold_alerts_def module_statics_def to_unsigned_id poll_metrics_Some
      read_io_total_def tick_snapshot_def collect_memory_def example_build_def
      example_reads_def FSHIFT_def max_t_def Let_def)

text \<open>
  Claim C10, as the code has it. The \<^verbatim>\<open>int\<close> limits are compared as unsigned 32-bit
  values, so a negative limit \<open>t\<close> acts as \<open>2 ^ 32 + t\<close>, which is at least \<open>2 ^ 31\<close>.
  With a negative \<open>mem_threshold\<close> the memory alert fires iff
  \<open>free_mem_mib < 2 ^ 32 + mem_threshold\<close>, hence on every tick whose \<open>free_mem_mib\<close> is
  below \<open>2 ^ 31\<close>. With a negative \<open>cpu_threshold\<close> (or \<open>io_threshold\<close>) the alert fires
  iff the field exceeds \<open>2 ^ 32 +\<close> the limit, hence never while the field is at most
  \<open>2 ^ 31\<close>.
\<close>

theorem negative_thresholds_compare_unsigned:
  "(sint (mem_threshold st) < 0 \<longrightarrow>
      (list_ex is_memory_alert (threshold_alerts tmp st) \<longleftrightarrow>
         uint (free_mem_mib tmp) < 2 ^ 32 + sint (mem_threshold st)) \<and>
      (uint (free_mem_mib tmp) < 2 ^ 31 \<longrightarrow>
         list_ex is_memory_alert (threshold_alerts tmp st)))
   \<and> (sint (cpu_threshold st) < 0 \<longrightarrow>
      (list_ex is_cpu_alert (threshold_alerts tmp st) \<longleftrightarrow>
         2 ^ 32 + sint (cpu_threshold st) < uint (load_pct tmp)) \<and>
      (uint (load_pct tmp) \<le> 2 ^ 31 \<longrightarrow>
         \<not> list_ex is_cpu_alert (threshold_alerts tmp st)))
   \<and> (sint (io_threshold st) < 0 \<longrightarrow>
      (list_ex is_io_alert (threshold_alerts tmp st) \<longleftrightarrow>
         2 ^ 32 + sint (io_threshold st) < uint (io_rate_sps tmp)) \<and>
      (uint (io_rate_sps tmp) \<le> 2 ^ 31 \<longrightarrow>
         \<not> list_ex is_io_alert (threshold_alerts tmp st)))"
proof (intro conjI impI)
  assume neg: "sint (mem_threshold st) < 0"
  from neg_threshold_range [OF neg]
  show "list_ex is_memory_alert (threshold_alerts tmp st) \<longleftrightarrow>
         uint (free_mem_mib tmp) < 2 ^ 32 + sint (mem_threshold st)"
    by (simp add: list_ex_threshold_alerts word_less_def)
  assume "uint (free_mem_mib tmp) < 2 ^ 31"
  with neg_threshold_range [OF neg]
  show "list_ex is_memory_alert (threshold_alerts tmp st)"
    by (simp add: list_ex_threshold_alerts word_less_def)
next
  assume neg: "sint (cpu_threshold st) < 0"
  from neg_threshold_range [OF neg]
  show "list_ex is_cpu_alert (threshold_alerts tmp st) \<longleftrightarrow>
         2 ^ 32 + sint (cpu_threshold st) < uint (load_pct tmp)"
    by (simp add: list_ex_threshold_alerts word_less_def)
  assume "uint (load_pct tmp) \<le> 2 ^ 31"
  with neg_threshold_range [OF neg]
  show "\<not> list_ex is_cpu_alert (threshold_alerts tmp st)"
    by (simp add: list_ex_threshold_alerts word_less_def)
next
  assume neg: "sint (io_threshold st) < 0"
  from neg_threshold_range [OF neg]
  show "list_ex is_io_alert (threshold_alerts tmp st) \<longleftrightarrow>
         2 ^ 32 + sint (io_threshold st) < uint (io_rate_sps tmp)"
    by (simp add: list_ex_threshold_alerts word_less_def)
  assume "uint (io_rate_sps tmp) \<le> 2 ^ 31"
  with neg_threshold_range [OF neg]
  show "\<not> list_ex is_io_alert (threshold_alerts tmp st)"
    by (simp add: list_ex_threshold_alerts word_less_def)
qed

theorem negative_thresholds_compare_unsigned_witness:
  "sint (mem_threshold (module_statics (- 1) (- 1) (- 1))) < 0
   \<and> sint (cpu_threshold (module_statics (- 1) (- 1) (- 1))) < 0
   \<and> sint (io_threshold (module_statics (- 1) (- 1) (- 1))) < 0
   \<and> uint (free_mem_mib example_snapshot) < 2 ^ 31
   \<and> uint (load_pct example_snapshot) \<le> 2 ^ 31
   \<and> uint (io_rate_sps example_snapshot) \<le> 2 ^ 31
   \<and> list_ex is_memory_alert (threshold_alerts example_snapshot (module_statics (- 1) (- 1) (- 1)))
   \<and> \<not> list_ex is_cpu_alert (threshold_alerts example_snapshot (module_statics (- 1) (- 1) (- 1)))
   \<and> \<not> list_ex is_io_alert (threshold_alerts example_snapshot (module_statics (- 1) (- 1) (- 1)))"
proof -
  have h: "sint (mem_threshold (module_statics (- 1) (- 1) (- 1))) < 0"
    "sint (cpu_threshold (module_statics (- 1) (- 1) (- 1))) < 0"
    "sint (io_threshold (module_statics (- 1) (- 1) (- 1))) < 0"
    by (simp_all add: module_statics_def)
  have f: "uint (free_mem_mib example_snapshot) < 2 ^ 31"
    "uint (load_pct example_snapshot) \<le> 2 ^ 31"
    "uint (io_rate_sps example_snapshot) \<le> 2 ^ 31"
    by (simp_all add: example_snapshot_def)
  from negative_thresholds_compare_unsigned
      [of "module_statics (- 1) (- 1) (- 1)" example_snapshot] h f
  show ?thesis
    by blast
qed

text \<open>
  Claim C10, as stated for every snapshot, fails at the top of the 32-bit range. With
  \<open>mem_threshold = -1\<close> and \<open>free_mem_mib = 4294967295\<close> the memory alert does not
  fire; with \<open>cpu_threshold = -2147483648\<close> and \<open>load_pct = 2147483649\<close> the CPU alert
  fires.
\<close>

theorem negative_thresholds_counterexample:
  "sint (mem_threshold (module_statics (- 1) (- 2147483648) 5000)) < 0
   \<and> \<not> list_ex is_memory_alert
        (threshold_alerts (example_snapshot\<lparr>free_mem_mib := 4294967295, load_pct := 2147483649\<rparr>)
           (module_statics (- 1) (- 2147483648) 5000))
   \<and> sint (cpu_threshold (module_statics (- 1) (- 2147483648) 5000)) < 0
   \<and> list_ex is_cpu_alert
        (threshold_alerts (example_snapshot\<lparr>free_mem_mib := 4294967295, load_pct := 2147483649\<rparr>)
           (module_statics (- 1) (- 2147483648) 5000))"
  by (simp add: threshold_alerts_def module_statics_def example_snapshot_def to_unsigned_id)

section \<open>Memory\<close>

text \<open>
  Claim C7, as the code has it. If the kernel reports \<open>freeram \<le> totalram\<close> and
  \<open>totalram\<close> is below \<open>2 ^ 42\<close> pages, so that \<open>totalram >> 10\<close> fits the \<^verbatim>\<open>u32\<close>
  field, then \<open>collect_memory\<close> returns \<open>free_mib \<le> total_mib\<close>, and the snapshot that
  \<open>poll_metrics\<close> publishes has \<open>free_mem_mib \<le> total_mem_mib\<close>.
\<close>

theorem memory_invariant_passes_through:
  assumes "freeram k \<le> totalram k" and "totalram k < 2 ^ 42"
  shows "fst (collect_memory k) \<le> snd (collect_memory k)
    \<and> map_option (\<lambda>s. free_mem_mib (snapshot s) \<le> total_mem_mib (snapshot s))
         (poll_metrics b k st) = Some True"
proof -
  from shift_cast_mono [OF assms]
  have "fst (collect_memory k) \<le> snd (collect_memory k)"
    by (simp add: collect_memory_def Let_def)
  then show ?thesis
    by (simp add: poll_metrics_Some tick_snapshot_def)
qed

theorem memory_invariant_passes_through_witness:
  "freeram example_reads \<le> totalram example_reads \<and> totalram example_reads < 2 ^ 42
   \<and> collect_memory example_reads = (512, 2048)
   \<and> fst (collect_memory example_reads) \<le> snd (collect_memory example_reads)"
proof -
  have h: "freeram example_reads \<le> totalram example_reads" "totalram example_reads < 2 ^ 42"
    by (simp_all add: example_reads_def)
  from memory_invariant_passes_through [OF h] h show ?thesis
    by (simp add: collect_memory_def example_reads_def)
qed

text \<open>
  Claim C7, as stated, fails on a 64-bit kernel once \<open>totalram >> 10\<close> no longer fits 32
  bits: with \<open>totalram = 2 ^ 42\<close> and \<open>freeram = 2 ^ 42 - 1\<close> the conversion gives
  \<open>total_mib = 0\<close> and \<open>free_mib = 4294967295\<close>.
\<close>

theorem memory_invariant_truncation_counterexample:
  "freeram (example_reads\<lparr>totalram := 4398046511104, freeram := 4398046511103\<rparr>)
     \<le> totalram (example_reads\<lparr>totalram := 4398046511104, freeram := 4398046511103\<rparr>)
   \<and> collect_memory (example_reads\<lparr>totalram := 4398046511104, freeram := 4398046511103\<rparr>)
       = (4294967295, 0)
   \<and> \<not> fst (collect_memory (example_reads\<lparr>totalram := 4398046511104, freeram := 4398046511103\<rparr>))
       \<le> snd (collect_memory (example_reads\<lparr>totalram := 4398046511104, freeram := 4398046511103\<rparr>))
   \<and> map_option (\<lambda>s. free_mem_mib (snapshot s) \<le> total_mem_mib (snapshot s))
         (poll_metrics example_build
            (example_reads\<lparr>totalram := 4398046511104, freeram := 4398046511103\<rparr>) example_armed)
       = Some False"
  by (simp add: collect_memory_def poll_metrics_Some tick_snapshot_def)

section \<open>The fallback diagnostic\<close>

lemma threshold_alerts_no_fallback:
  "count_list (threshold_alerts tmp st) Info_fallback = 0"
  by (simp add: threshold_alerts_def)

lemma poll_metrics_fallback_count:
  assumes "\<not> (HAVE_DISK_STATS b \<and> HAVE_DISK_ITER b)"
  shows "\<exists>st1. poll_metrics b k st = Some st1 \<and> io_fallback_logged st1 \<and>
           count_list (klog st1) Info_fallback =
             count_list (klog st) Info_fallback + (if io_fallback_logged st then 0 else 1)"
  using assms
  by (auto simp: poll_metrics_Some read_io_total_def Let_def threshold_alerts_no_fallback)

lemma run_ticks_fallback_logged:
  assumes "\<not> (HAVE_DISK_STATS b \<and> HAVE_DISK_ITER b)" and "io_fallback_logged st"
  shows "\<exists>st1. run_ticks b ks st = Some st1 \<and> io_fallback_logged st1 \<and>
           count_list (klog st1) Info_fallback = count_list (klog st) Info_fallback"
  using assms(2)
proof (induction ks arbitrary: st)
  case Nil
  then show ?case by simp
next
  case (Cons k ks)
  from poll_metrics_fallback_count [OF assms(1), of k st] Cons.prems
  obtain st1 where st1: "poll_metrics b k st = Some st1" "io_fallback_logged st1"
    "count_list (klog st1) Info_fallback = count_list (klog st) Info_fallback"
    by auto
  from Cons.IH [OF st1(2)] st1(1,3) show ?case
    by simp
qed

text \<open>
  Claim C9. In a build that uses the fallback I/O strategy, starting from a module that
  has not logged the selection diagnostic, the first tick logs it, and after that tick
  and any number of further ticks the log holds it exactly once.
\<close>

theorem fallback_diagnostic_exactly_once:
  assumes "\<not> (HAVE_DISK_STATS b \<and> HAVE_DISK_ITER b)"
    and "\<not> io_fallback_logged st"
    and "count_list (klog st) Info_fallback = 0"
  shows "\<exists>st1 st2. poll_metrics b k st = Some st1 \<and>
           count_list (klog st1) Info_fallback = 1 \<and>
           run_ticks b (k # ks) st = Some st2 \<and>
           count_list (klog st2) Info_fallback = 1"
proof -
  from poll_metrics_fallback_count [OF assms(1), of k st] assms(2,3)
  obtain st1 where st1: "poll_metrics b k st = Some st1" "io_fallback_logged st1"
    "count_list (klog st1) Info_fallback = 1"
    by auto
  from run_ticks_fallback_logged [OF assms(1) st1(2), of ks] st1(1,3) show ?thesis
    by auto
qed

theorem fallback_diagnostic_exactly_once_witness:
  "\<not> (HAVE_DISK_STATS example_build \<and> HAVE_DISK_ITER example_build)
   \<and> \<not> io_fallback_logged example_state
   \<and> count_list (klog example_state) Info_fallback = 0
   \<and> map_option (\<lambda>s. count_list (klog s) Info_fallback)
        (run_ticks example_build
          [example_reads, example_reads\<lparr>PGPGIN := 101000\<rparr>, example_reads\<lparr>PGPGIN := 101000\<rparr>]
          example_state) = Some 1"
proof -
  have h: "\<not> (HAVE_DISK_STATS example_build \<and> HAVE_DISK_ITER example_build)"
    "\<not> io_fallback_logged example_state"
    "count_list (klog example_state) Info_fallback = 0"
    by (simp_all add: example_build_def example_state_def module_statics_def)
  from fallback_diagnostic_exactly_once [OF h, of example_reads
      "[example_reads\<lparr>PGPGIN := 101000\<rparr>, example_reads\<lparr>PGPGIN := 101000\<rparr>]"] h
  show ?thesis
    by auto
qed

section \<open>A reader can see a torn snapshot\<close>

lemma same_field_copy:
  "same_field f (copy_field f src dst) src"
  by (cases f) simp_all

lemma same_field_copy_other:
  "same_field g dst src \<Longrightarrow> same_field g (copy_field f src dst) src"
  by (cases f; cases g) simp_all

lemma same_all_fields:
  assumes "\<forall>f \<in> set all_fields. same_field f a b"
  shows "a = b"
  using assms by (cases a; cases b) (simp add: all_fields_def)

text \<open>
  Without the timer, the copy is the read of the sequential model: a schedule of loads
  alone leaves the state as it is, and once it has loaded every field the local \<open>s\<close> is
  the stored snapshot, in whatever order the fields were loaded.
\<close>

lemma proc_show_copy_loads:
  assumes "\<forall>f \<in> set seen. same_field f s (snapshot st)"
  shows "\<exists>s1. proc_show_copy b (map Load fs) st s = Some (st, s1) \<and>
           (\<forall>f \<in> set seen \<union> set fs. same_field f s1 (snapshot st))"
  using assms
proof (induction fs arbitrary: s seen)
  case Nil
  then show ?case by simp
next
  case (Cons g fs)
  have "\<forall>f \<in> set (g # seen). same_field f (copy_field g (snapshot st) s) (snapshot st)"
    using Cons.prems by (auto simp: same_field_copy same_field_copy_other)
  from Cons.IH [OF this] show ?case
    by auto
qed

lemma proc_show_copy_uninterrupted:
  assumes "set all_fields \<subseteq> set fs"
  shows "proc_show_copy b (map Load fs) st s = Some (st, current_snapshot st)"
proof -
  from proc_show_copy_loads [of "[]" s st b fs]
  obtain s1 where s1: "proc_show_copy b (map Load fs) st s = Some (st, s1)"
    and same: "\<forall>f \<in> set fs. same_field f s1 (snapshot st)"
    by auto
  from assms same have "s1 = snapshot st"
    by (intro same_all_fields) auto
  with s1 show ?thesis
    by (simp add: current_snapshot_def)
qed

text \<open>So without the timer, the schedule model is \<open>proc_show\<close> of the sequential model.\<close>

lemma proc_show_preempted_uninterrupted:
  assumes "set all_fields \<subseteq> set fs"
  shows "proc_show_preempted b (map Load fs) st s0 = Some (st, proc_show st)"
  by (simp add: proc_show_preempted_def proc_show_copy_uninterrupted [OF assms]
      proc_show_def seq_lines_def Let_def)


end
